theory Spec2Isabelle
  imports Complex_Main
begin

section \<open>ConserveBot: the reading simulator and the decision engine\<close>

text \<open>
  A shallow embedding of the backend of ConserveBot: \<^verbatim>\<open>utils.js\<close>,
  \<^verbatim>\<open>standards.js\<close>, \<^verbatim>\<open>engine.js\<close> and \<^verbatim>\<open>simulator.js\<close>.

  Conventions of the embedding.
  \<^item> A JavaScript number that carries a measurement is a \<open>real\<close>: the arithmetic is
    exact, so rounding error, \<open>NaN\<close> and the infinities of IEEE doubles are outside the
    model. A millisecond timestamp (\<open>Date.now()\<close>, \<open>Date.parse\<close>) is an \<open>int\<close>, the
    length of an array is a \<open>nat\<close>.
  \<^item> A string that names a key chosen by a caller (artifact type, demo mode, action type)
    stays a \<open>string\<close>, so that the \<open>default\<close> branches are part of the model. The
    strings the code only produces itself (status, colour, door state, risk level) are
    datatypes.
  \<^item> A method that assigns to \<open>this\<close> takes the object and returns the updated one. A
    \<open>TypeError\<close> raised by reading a property of \<open>undefined\<close> is a value \<open>Inl TypeError\<close>.
  \<^item> \<open>Math.random()\<close>, \<open>randn()\<close> and \<open>Date.now()\<close> are inputs: the caller of a model
    function supplies the values drawn during that call.
  \<^item> Template strings that print numbers are structured values (\<open>insight\<close>, \<open>reason\<close>)
    carrying the numbers printed.
\<close>

subsection \<open>utils.js\<close>

definition clamp :: "'a::linorder \<Rightarrow> 'a \<Rightarrow> 'a \<Rightarrow> 'a" where
  "clamp n mn mx = max mn (min mx n)"

definition lerp :: "real \<Rightarrow> real \<Rightarrow> real \<Rightarrow> real" where
  "lerp a b t = a + (b - a) * t"

text \<open>\<open>rand(min, max)\<close>; the argument \<open>u\<close> is the value of \<open>Math.random()\<close>.\<close>

definition rand :: "real \<Rightarrow> real \<Rightarrow> real \<Rightarrow> real" where
  "rand mn mx u = lerp mn mx u"

definition isBetweenInclusive :: "real \<Rightarrow> real \<times> real \<Rightarrow> bool" where
  "isBetweenInclusive x ab = (case ab of (a, b) \<Rightarrow> x \<ge> a \<and> x \<le> b)"

definition mean :: "real list \<Rightarrow> real" where
  "mean nums = (if length nums = 0 then 0 else foldl (\<lambda>a b. a + b) 0 nums / real (length nums))"

text \<open>
  The accumulation loop of \<open>slope\<close>: \<open>num\<close> and \<open>den\<close> are threaded through the pairs
  \<open>(ts[i], ys[i])\<close>.
\<close>

fun slope_loop :: "real \<Rightarrow> real \<Rightarrow> (real \<times> real) list \<Rightarrow> real \<times> real \<Rightarrow> real \<times> real" where
  "slope_loop tMean yMean [] acc = acc"
| "slope_loop tMean yMean ((t, y) # rest) (num, den) =
     slope_loop tMean yMean rest (num + (t - tMean) * (y - yMean), den + (t - tMean)\<^sup>2)"

definition slope :: "(int \<times> real) list \<Rightarrow> real" where
  "slope points =
     (if length points < 2 then 0
      else
        let t0 = fst (points ! 0);
            ts = map (\<lambda>p. real_of_int (fst p - t0) / 1000) points;
            ys = map snd points;
            tMean = mean ts;
            yMean = mean ys;
            (num, den) = slope_loop tMean yMean (zip ts ys) (0, 0)
        in if den = 0 then 0 else num / den)"

text \<open>
  \<open>Math.round\<close> rounds a tie towards \<open>+\<infinity>\<close>. \<open>Number(x.toFixed(f))\<close> keeps \<open>f\<close> decimals: it
  takes the sign off, picks the integer \<open>n\<close> with \<open>n / 10^f\<close> nearest to \<open>|x|\<close> (the larger
  one on a tie) and puts the sign back. (From \<open>10^21\<close> on \<open>toFixed\<close> prints an exponent
  instead; the values it is applied to here are clamped or are slopes of clamped values.)
\<close>

definition Math_round :: "real \<Rightarrow> int" where
  "Math_round x = \<lfloor>x + 1 / 2\<rfloor>"

definition toFixed :: "nat \<Rightarrow> real \<Rightarrow> real" where
  "toFixed f x =
     (if x < 0 then - (real_of_int \<lfloor>(- x) * 10 ^ f + 1 / 2\<rfloor> / 10 ^ f)
      else real_of_int \<lfloor>x * 10 ^ f + 1 / 2\<rfloor> / 10 ^ f)"

subsection \<open>standards.js\<close>

record band =
  safe :: "real \<times> real"
  warn :: "real \<times> real"

record maxband =
  safeMax :: real
  warnMax :: real

record access_std =
  maxOpensPerHourSafe :: real
  maxOpensPerHourWarn :: real

record standards =
  label :: string
  temperatureC :: band
  humidityPct :: band
  moisturePct :: maxband
  access :: access_std
  vibration :: maxband

definition FOSSILS :: standards where
  "FOSSILS = \<lparr> label = ''Fossils'',
      temperatureC = \<lparr> safe = (16, 22), warn = (15, 23) \<rparr>,
      humidityPct = \<lparr> safe = (40, 55), warn = (35, 60) \<rparr>,
      moisturePct = \<lparr> safeMax = 5, warnMax = 6 \<rparr>,
      access = \<lparr> maxOpensPerHourSafe = 2, maxOpensPerHourWarn = 4 \<rparr>,
      vibration = \<lparr> safeMax = 0.25, warnMax = 0.5 \<rparr> \<rparr>"

definition ORGANIC :: standards where
  "ORGANIC = \<lparr> label = ''Organic (wood/bone/textile)'',
      temperatureC = \<lparr> safe = (16, 20), warn = (15, 22) \<rparr>,
      humidityPct = \<lparr> safe = (45, 55), warn = (40, 60) \<rparr>,
      moisturePct = \<lparr> safeMax = 4, warnMax = 5 \<rparr>,
      access = \<lparr> maxOpensPerHourSafe = 1, maxOpensPerHourWarn = 3 \<rparr>,
      vibration = \<lparr> safeMax = 0.2, warnMax = 0.4 \<rparr> \<rparr>"

definition METALLIC :: standards where
  "METALLIC = \<lparr> label = ''Metallic artifacts'',
      temperatureC = \<lparr> safe = (16, 22), warn = (15, 23) \<rparr>,
      humidityPct = \<lparr> safe = (35, 45), warn = (30, 50) \<rparr>,
      moisturePct = \<lparr> safeMax = 3, warnMax = 4 \<rparr>,
      access = \<lparr> maxOpensPerHourSafe = 1, maxOpensPerHourWarn = 3 \<rparr>,
      vibration = \<lparr> safeMax = 0.25, warnMax = 0.5 \<rparr> \<rparr>"

definition STONE :: standards where
  "STONE = \<lparr> label = ''Stone artifacts'',
      temperatureC = \<lparr> safe = (16, 24), warn = (15, 26) \<rparr>,
      humidityPct = \<lparr> safe = (40, 60), warn = (35, 65) \<rparr>,
      moisturePct = \<lparr> safeMax = 6, warnMax = 7 \<rparr>,
      access = \<lparr> maxOpensPerHourSafe = 3, maxOpensPerHourWarn = 6 \<rparr>,
      vibration = \<lparr> safeMax = 0.3, warnMax = 0.6 \<rparr> \<rparr>"

definition ARTIFACT_TYPES :: "string list" where
  "ARTIFACT_TYPES = [''FOSSILS'', ''ORGANIC'', ''METALLIC'', ''STONE'']"

text \<open>The own properties of the object literal \<open>STANDARDS_BY_TYPE\<close>, in source order.\<close>

definition STANDARDS_BY_TYPE :: "(string \<times> standards) list" where
  "STANDARDS_BY_TYPE =
     [(''FOSSILS'', FOSSILS), (''ORGANIC'', ORGANIC), (''METALLIC'', METALLIC), (''STONE'', STONE)]"

text \<open>
  \<open>STANDARDS_BY_TYPE\<close> is an object literal, so its prototype is \<open>Object.prototype\<close>, and
  the property read \<open>STANDARDS_BY_TYPE[artifactType]\<close> walks the prototype chain: a key
  that is not an own property but names a member of \<open>Object.prototype\<close> reads that member
  (a built-in function, or for \<open>__proto__\<close> the prototype object itself), not
  \<open>undefined\<close>. These are the string-keyed members of \<open>Object.prototype\<close> in ECMAScript
  (with its Annex B).
\<close>

definition Object_prototype_keys :: "string list" where
  "Object_prototype_keys =
     [''constructor'', ''hasOwnProperty'', ''isPrototypeOf'', ''propertyIsEnumerable'',
      ''toLocaleString'', ''toString'', ''valueOf'', ''__proto__'',
      ''__defineGetter__'', ''__defineSetter__'', ''__lookupGetter__'', ''__lookupSetter__'']"

text \<open>
  The value of a property read on \<open>STANDARDS_BY_TYPE\<close>: a standards entry, a member
  inherited from \<open>Object.prototype\<close> (kept by its name), or \<open>undefined\<close>.
\<close>

datatype js_value = Entry standards | Inherited string | Undefined

definition get_property :: "string \<Rightarrow> js_value" where
  "get_property key =
     (case map_of STANDARDS_BY_TYPE key of
        Some s \<Rightarrow> Entry s
      | None \<Rightarrow> if key \<in> set Object_prototype_keys then Inherited key else Undefined)"

text \<open>\<open>a ?? b\<close> is \<open>b\<close> exactly when \<open>a\<close> is \<open>undefined\<close> (or \<open>null\<close>).\<close>

definition getStandards :: "string \<Rightarrow> js_value" where
  "getStandards artifactType =
     (case get_property artifactType of
        Undefined \<Rightarrow> get_property ''FOSSILS''
      | v \<Rightarrow> v)"

subsection \<open>The reading, as the simulator emits it and the engine reads it\<close>

datatype door = Closed | Open

text \<open>\<open>timestamp\<close> is the ISO string of a millisecond count; the model keeps the count.\<close>

record reading =
  timestamp :: int
  temperatureC :: real
  humidityPct :: real
  moisturePct :: real
  doorState :: door
  opensPerHour :: nat
  vibration :: real
  accessLocked :: bool

subsection \<open>engine.js\<close>

datatype status = Safe | Warn | Danger

datatype color = Green | Yellow | Red

datatype risk_level = LOW | MEDIUM | HIGH | CRITICAL

definition rangeStatus :: "real \<Rightarrow> band \<Rightarrow> status" where
  "rangeStatus x b =
     (if isBetweenInclusive x (safe b) then Safe
      else if isBetweenInclusive x (warn b) then Warn
      else Danger)"

definition maxStatus :: "real \<Rightarrow> maxband \<Rightarrow> status" where
  "maxStatus x m =
     (if x \<le> safeMax m then Safe
      else if x \<le> warnMax m then Warn
      else Danger)"

definition statusToColor :: "status \<Rightarrow> color" where
  "statusToColor st = (if st = Safe then Green else if st = Warn then Yellow else Red)"

definition riskFromRange :: "real \<Rightarrow> band \<Rightarrow> real" where
  "riskFromRange x b =
     (if isBetweenInclusive x (safe b) then 0
      else if isBetweenInclusive x (warn b) then
        (let (w0, w1) = warn b;
             (s0, s1) = safe b;
             d = (if x < s0 then s0 - x else if x > s1 then x - s1 else 0);
             maxD = (if x < s0 then s0 - w0 else w1 - s1);
             t = (if maxD > 0 then clamp (d / maxD) 0 1 else 1)
         in 25 + 35 * t)
      else
        (let (w0, w1) = warn b;
             d = (if x < w0 then w0 - x else if x > w1 then x - w1 else 0);
             t = clamp (d / 5) 0 1
         in 70 + 30 * t))"

definition riskFromMax :: "real \<Rightarrow> maxband \<Rightarrow> real" where
  "riskFromMax x m =
     (if x \<le> safeMax m then 0
      else if x \<le> warnMax m then
        (let t = clamp ((x - safeMax m) / max 0.001 (warnMax m - safeMax m)) 0 1
         in 25 + 35 * t)
      else
        (let t = clamp ((x - warnMax m) / 3) 0 1
         in 70 + 30 * t))"

definition riskLevel :: "int \<Rightarrow> risk_level" where
  "riskLevel score =
     (if score < 30 then LOW
      else if score < 60 then MEDIUM
      else if score < 80 then HIGH
      else CRITICAL)"

text \<open>
  The sentences of \<open>insights\<close>. A sentence that prints numbers carries them: the status
  printed in upper case, the value read, and the targets quoted from the standards.
\<close>

datatype insight =
    MoldWithinSixHours
  | MoldOverNextDay
  | HumidityTrendingUpward
  | TemperatureIs status real real real
  | HumidityIs status real real real
  | MoistureIs status real real
  | RepeatedAccess nat
  | VibrationIs status real
  | AllStable

definition predictionForHumidity :: "real \<Rightarrow> status \<Rightarrow> real \<Rightarrow> insight option" where
  "predictionForHumidity humidity humidityStatus humiditySlopePerMin =
     (if humidityStatus = Danger \<and> humidity \<ge> 60 then
        (let rising = humiditySlopePerMin > 0.05
         in if rising then Some MoldWithinSixHours else Some MoldOverNextDay)
      else if humidityStatus = Warn \<and> humiditySlopePerMin > 0.05 then Some HumidityTrendingUpward
      else None)"

text \<open>The \<open>reason\<close> of an action, with the number it prints.\<close>

datatype reason =
    HumidityAboveTarget real
  | AirflowHelps
  | HumidityBelowTarget real
  | TemperatureOutsideIdeal real
  | TooManyDoorOpens

record action =
  actionType :: string
  actionLabel :: string
  actionReason :: reason

record status_entry =
  status :: status
  color :: color

record statuses =
  temperature :: status_entry
  humidity :: status_entry
  moisture :: status_entry
  accessEntry :: status_entry
  vibrationEntry :: status_entry

record assessment =
  riskScore :: int
  riskLevelOf :: risk_level
  statuses :: statuses
  trendHumiditySlopePerMin :: real
  insights :: "insight list"
  actions :: "action list"

text \<open>The trend window \<open>this.recent\<close>: pairs \<open>{tMs, reading}\<close>, oldest first.\<close>

record engine =
  recent :: "(int \<times> reading) list"

definition DecisionEngine :: engine where
  "DecisionEngine = \<lparr> recent = [] \<rparr>"

definition ingest :: "reading \<Rightarrow> engine \<Rightarrow> engine" where
  "ingest r e =
     (let tMs = timestamp r;
          pushed = recent e @ [(tMs, r)];
          cutoff = tMs - 15 * 60000
      in e\<lparr> recent := filter (\<lambda>p. fst p \<ge> cutoff) pushed \<rparr>)"

text \<open>
  \<open>evaluate\<close>, block by block. Each definition below is one group of local constants of
  the method, under the name the source gives it.
\<close>

definition accessStatus :: "reading \<Rightarrow> standards \<Rightarrow> status" where
  "accessStatus r std =
     (if real (opensPerHour r) \<le> maxOpensPerHourSafe (access std) then Safe
      else if real (opensPerHour r) \<le> maxOpensPerHourWarn (access std) then Warn
      else Danger)"

definition vibrationStatus :: "reading \<Rightarrow> standards \<Rightarrow> status" where
  "vibrationStatus r std =
     (if vibration r \<le> safeMax (standards.vibration std) then Safe
      else if vibration r \<le> warnMax (standards.vibration std) then Warn
      else Danger)"

definition humiditySlopePerMin :: "engine \<Rightarrow> real" where
  "humiditySlopePerMin e =
     (let humidityPoints = map (\<lambda>p. (fst p, humidityPct (snd p))) (recent e);
          humiditySlopePerSec = slope humidityPoints
      in humiditySlopePerSec * 60)"

definition riskAccess :: "reading \<Rightarrow> standards \<Rightarrow> real" where
  "riskAccess r std =
     clamp ((real (opensPerHour r) / max 1 (maxOpensPerHourWarn (access std))) * 60) 0 100"

definition riskVibration :: "reading \<Rightarrow> standards \<Rightarrow> real" where
  "riskVibration r std =
     clamp ((vibration r / max 0.01 (warnMax (standards.vibration std))) * 60) 0 100"

text \<open>The weighted total, the four amplifiers in source order, rounding and clamping.\<close>

definition computeRiskScore :: "engine \<Rightarrow> reading \<Rightarrow> standards \<Rightarrow> int" where
  "computeRiskScore e r std =
     (let riskTemp = riskFromRange (temperatureC r) (standards.temperatureC std);
          riskHumidity = riskFromRange (humidityPct r) (standards.humidityPct std);
          riskMoisture = riskFromMax (moisturePct r) (standards.moisturePct std);
          score0 = riskTemp * 0.22 + riskHumidity * 0.28 + riskMoisture * 0.22
                   + riskAccess r std * 0.16 + riskVibration r std * 0.12;
          score1 = (if humiditySlopePerMin e > 0.08 then score0 + 8 else score0);
          score2 = (if humiditySlopePerMin e > 0.15 then score1 + 12 else score1);
          score3 = (if doorState r = Open then score2 + 4 else score2);
          score4 = (if accessLocked r then score3 - 3 else score3)
      in clamp (Math_round score4) 0 100)"

definition collectInsights :: "engine \<Rightarrow> reading \<Rightarrow> standards \<Rightarrow> insight list" where
  "collectInsights e r std =
     (let tempStatus = rangeStatus (temperatureC r) (standards.temperatureC std);
          humidityStatus = rangeStatus (humidityPct r) (standards.humidityPct std);
          moistureStatus = maxStatus (moisturePct r) (standards.moisturePct std);
          prediction = predictionForHumidity (humidityPct r) humidityStatus (humiditySlopePerMin e);
          pushed =
            (case prediction of Some p \<Rightarrow> [p] | None \<Rightarrow> [])
            @ (if tempStatus \<noteq> Safe
               then [TemperatureIs tempStatus (temperatureC r)
                       (fst (safe (standards.temperatureC std))) (snd (safe (standards.temperatureC std)))]
               else [])
            @ (if humidityStatus \<noteq> Safe
               then [HumidityIs humidityStatus (humidityPct r)
                       (fst (safe (standards.humidityPct std))) (snd (safe (standards.humidityPct std)))]
               else [])
            @ (if moistureStatus \<noteq> Safe
               then [MoistureIs moistureStatus (moisturePct r) (safeMax (standards.moisturePct std))]
               else [])
            @ (if accessStatus r std \<noteq> Safe then [RepeatedAccess (opensPerHour r)] else [])
            @ (if vibrationStatus r std \<noteq> Safe
               then [VibrationIs (vibrationStatus r std) (vibration r)]
               else [])
      in if length pushed = 0 then [AllStable] else pushed)"

text \<open>The list \<open>actions\<close> as it stands before the gate on the risk score.\<close>

definition selectActions :: "reading \<Rightarrow> standards \<Rightarrow> action list" where
  "selectActions r std =
     (let tempStatus = rangeStatus (temperatureC r) (standards.temperatureC std);
          humidityStatus = rangeStatus (humidityPct r) (standards.humidityPct std)
      in
        (if humidityStatus = Danger
            \<or> (humidityStatus = Warn \<and> humidityPct r > snd (safe (standards.humidityPct std)))
         then [\<lparr> actionType = ''DEHUMIDIFY'', actionLabel = ''Trigger dehumidification'',
                  actionReason = HumidityAboveTarget (humidityPct r) \<rparr>,
               \<lparr> actionType = ''TRIGGER_AIRFLOW'', actionLabel = ''Increase airflow'',
                  actionReason = AirflowHelps \<rparr>]
         else if humidityStatus = Warn \<and> humidityPct r < fst (safe (standards.humidityPct std))
         then [\<lparr> actionType = ''HUMIDIFY'', actionLabel = ''Add gentle humidification'',
                  actionReason = HumidityBelowTarget (humidityPct r) \<rparr>]
         else [])
        @ (if tempStatus = Danger \<or> tempStatus = Warn
           then
             (let mid = (fst (safe (standards.temperatureC std))
                          + snd (safe (standards.temperatureC std))) / 2;
                  down = temperatureC r > mid
              in [\<lparr> actionType = (if down then ''ADJUST_TEMP_DOWN'' else ''ADJUST_TEMP_UP''),
                     actionLabel = (if down then ''Cool internal temperature''
                                    else ''Warm internal temperature''),
                     actionReason = TemperatureOutsideIdeal (temperatureC r) \<rparr>])
           else [])
        @ (if accessStatus r std = Danger
           then [\<lparr> actionType = ''LOCK_ACCESS_10_MIN'', actionLabel = ''Lock access for 10 minutes'',
                    actionReason = TooManyDoorOpens \<rparr>]
           else []))"

text \<open>
  \<open>evaluate\<close> is a method of the engine: it returns the assessment together with the
  engine as the call leaves it. The method reads \<open>this.recent\<close> and assigns to no field.
\<close>

definition evaluate :: "reading \<Rightarrow> standards \<Rightarrow> engine \<Rightarrow> assessment \<times> engine" where
  "evaluate r std e =
     (let tempStatus = rangeStatus (temperatureC r) (standards.temperatureC std);
          humidityStatus = rangeStatus (humidityPct r) (standards.humidityPct std);
          moistureStatus = maxStatus (moisturePct r) (standards.moisturePct std);
          score = computeRiskScore e r std;
          finalActions = (if score \<ge> 45 then selectActions r std else [])
      in (\<lparr> riskScore = score,
            riskLevelOf = riskLevel score,
            statuses = \<lparr>
              temperature = \<lparr> status = tempStatus, color = statusToColor tempStatus \<rparr>,
              humidity = \<lparr> status = humidityStatus, color = statusToColor humidityStatus \<rparr>,
              moisture = \<lparr> status = moistureStatus, color = statusToColor moistureStatus \<rparr>,
              accessEntry = \<lparr> status = accessStatus r std,
                              color = statusToColor (accessStatus r std) \<rparr>,
              vibrationEntry = \<lparr> status = vibrationStatus r std,
                                 color = statusToColor (vibrationStatus r std) \<rparr> \<rparr>,
            trendHumiditySlopePerMin = toFixed 3 (humiditySlopePerMin e),
            insights = collectInsights e r std,
            actions = finalActions \<rparr>, e))"

subsection \<open>simulator.js\<close>

datatype error = TypeError

definition DEMO_MODES :: "string list" where
  "DEMO_MODES = [''normal'', ''atRisk'', ''remediation'']"

definition midpoint :: "real \<times> real \<Rightarrow> real" where
  "midpoint ab = (case ab of (a, b) \<Rightarrow> (a + b) / 2)"

record controls =
  tempBiasC :: real
  humidityBiasPct :: real
  airflowBoost :: real
  accessLockedUntilMs :: int

record sim_state =
  temperatureC :: real
  humidityPct :: real
  moisturePct :: real
  doorState :: door
  lastDoorToggleMs :: int
  opensInLastHour :: "int list"
  vibration :: real

record simulator =
  artifactType :: string
  demoMode :: string
  controls :: controls
  state :: sim_state

text \<open>
  The values drawn while \<open>_initState\<close> runs: one \<open>Math.random()\<close> for each of the three
  calls of \<open>rand\<close> in the branch taken, in source order.
\<close>

record init_draws =
  uStartT :: real
  uStartH :: real
  uStartM :: real

text \<open>
  The values drawn while \<open>tick\<close> runs, in source order: three results of \<open>randn()\<close>
  (temperature, humidity, moisture), the \<open>Math.random()\<close> compared with the toggle chance
  (drawn only when the door may toggle), the one compared with the bump chance, the one
  inside \<open>rand(0.3, 0.9)\<close> (drawn only on a bump), and the \<open>randn()\<close> of the vibration.
\<close>

record tick_draws =
  nTemp :: real
  nHumidity :: real
  nMoisture :: real
  uToggle :: real
  uBump :: real
  uBumpSize :: real
  nVibration :: real

text \<open>
  \<open>_initState\<close>. With \<open>std\<close> not a standards entry, \<open>std.temperatureC\<close> is \<open>undefined\<close> and
  reading its \<open>safe\<close> raises before \<open>this.state\<close> is assigned.
\<close>

definition initState :: "init_draws \<Rightarrow> int \<Rightarrow> simulator \<Rightarrow> (error + unit) \<times> simulator" where
  "initState dr now sim =
     (case getStandards (artifactType sim) of
        Entry std \<Rightarrow>
          (let baseT = midpoint (safe (standards.temperatureC std));
               baseH = midpoint (safe (standards.humidityPct std));
               baseM = min (safeMax (standards.moisturePct std) - 0.5) (safeMax (standards.moisturePct std));
               (startT, startH, startM) =
                 (if demoMode sim = ''remediation'' then
                    (baseT + rand 2.5 4.0 (uStartT dr),
                     baseH + rand 8 15 (uStartH dr),
                     baseM + rand 1.5 3.0 (uStartM dr))
                  else if demoMode sim = ''atRisk'' then
                    (baseT + rand 0.5 1.5 (uStartT dr),
                     baseH + rand 3 6 (uStartH dr),
                     baseM + rand 0.5 1.2 (uStartM dr))
                  else
                    (baseT + rand (- 0.4) 0.4 (uStartT dr),
                     baseH + rand (- 1.5) 1.5 (uStartH dr),
                     baseM + rand (- 0.3) 0.3 (uStartM dr)))
           in (Inr (),
               sim\<lparr> state := \<lparr> temperatureC = startT, humidityPct = startH, moisturePct = startM,
                                doorState = Closed, lastDoorToggleMs = now, opensInLastHour = [],
                                vibration = 0 \<rparr> \<rparr>))
      | _ \<Rightarrow> (Inl TypeError, sim))"

text \<open>
  The constructor. The fields are assigned first, \<open>state\<close> by \<open>_initState\<close>; when that
  raises, no object is returned. (\<open>blank_state\<close> stands for the field \<open>state\<close> not yet
  assigned: \<open>_initState\<close> never reads it.)
\<close>

definition initial_controls :: controls where
  "initial_controls = \<lparr> tempBiasC = 0, humidityBiasPct = 0, airflowBoost = 0, accessLockedUntilMs = 0 \<rparr>"

definition blank_state :: sim_state where
  "blank_state = \<lparr> temperatureC = 0, humidityPct = 0, moisturePct = 0, doorState = Closed,
                    lastDoorToggleMs = 0, opensInLastHour = [], vibration = 0 \<rparr>"

definition Simulator :: "string \<Rightarrow> string \<Rightarrow> init_draws \<Rightarrow> int \<Rightarrow> error + simulator" where
  "Simulator aType dMode dr now =
     (case initState dr now \<lparr> artifactType = aType, demoMode = dMode,
                              controls = initial_controls, state = blank_state \<rparr> of
        (Inl err, _) \<Rightarrow> Inl err
      | (Inr _, sim) \<Rightarrow> Inr sim)"

definition setArtifactType :: "string \<Rightarrow> init_draws \<Rightarrow> int \<Rightarrow> simulator \<Rightarrow> (error + unit) \<times> simulator" where
  "setArtifactType aType dr now sim = initState dr now (sim\<lparr> artifactType := aType \<rparr>)"

definition setDemoMode :: "string \<Rightarrow> init_draws \<Rightarrow> int \<Rightarrow> simulator \<Rightarrow> (error + unit) \<times> simulator" where
  "setDemoMode dMode dr now sim = initState dr now (sim\<lparr> demoMode := dMode \<rparr>)"

text \<open>\<open>applyAction\<close>; \<open>now\<close> is the value of \<open>Date.now()\<close>. The last branch is \<open>default\<close>.\<close>

definition applyAction :: "string \<Rightarrow> int \<Rightarrow> simulator \<Rightarrow> simulator" where
  "applyAction aType now sim =
     (let c = controls sim in
      if aType = ''ADJUST_TEMP_DOWN'' then
        sim\<lparr> controls := c\<lparr> tempBiasC := tempBiasC c - 0.15 \<rparr> \<rparr>
      else if aType = ''ADJUST_TEMP_UP'' then
        sim\<lparr> controls := c\<lparr> tempBiasC := tempBiasC c + 0.15 \<rparr> \<rparr>
      else if aType = ''DEHUMIDIFY'' then
        sim\<lparr> controls := c\<lparr> humidityBiasPct := humidityBiasPct c - 0.4,
                              airflowBoost := clamp (airflowBoost c + 0.2) 0 1 \<rparr> \<rparr>
      else if aType = ''HUMIDIFY'' then
        sim\<lparr> controls := c\<lparr> humidityBiasPct := humidityBiasPct c + 0.4 \<rparr> \<rparr>
      else if aType = ''TRIGGER_AIRFLOW'' then
        sim\<lparr> controls := c\<lparr> airflowBoost := clamp (airflowBoost c + 0.25) 0 1 \<rparr> \<rparr>
      else if aType = ''LOCK_ACCESS_10_MIN'' then
        sim\<lparr> controls := c\<lparr> accessLockedUntilMs := max (accessLockedUntilMs c) (now + 10 * 60000) \<rparr> \<rparr>
      else sim)"

text \<open>
  \<open>tick\<close>, block by block. First the door: the state after the \<open>if\<close>/\<open>else if\<close> on
  \<open>accessLocked\<close> and \<open>canToggle\<close>.
\<close>

definition doorLogic :: "tick_draws \<Rightarrow> int \<Rightarrow> string \<Rightarrow> bool \<Rightarrow> sim_state \<Rightarrow> sim_state" where
  "doorLogic dr nowMs dMode locked st =
     (let canToggle = nowMs - lastDoorToggleMs st > 10000 in
      if \<not> locked \<and> canToggle then
        (let baseChance = (if dMode = ''normal'' then 0.01 else if dMode = ''atRisk'' then 0.03 else 0.05);
             toggleChance = (if doorState st = Closed then baseChance else 0.08)
         in if uToggle dr < toggleChance then
              (let toggled = st\<lparr> doorState := (if doorState st = Closed then Open else Closed),
                                 lastDoorToggleMs := nowMs \<rparr>
               in if doorState toggled = Open
                  then toggled\<lparr> opensInLastHour := opensInLastHour toggled @ [nowMs] \<rparr>
                  else toggled)
            else st)
      else if locked \<and> doorState st = Open then
        st\<lparr> doorState := Closed, lastDoorToggleMs := nowMs \<rparr>
      else st)"

definition vibrationStep :: "tick_draws \<Rightarrow> string \<Rightarrow> sim_state \<Rightarrow> sim_state" where
  "vibrationStep dr dMode st =
     (let bumpChance = (if dMode = ''normal'' then 0.01 else if dMode = ''atRisk'' then 0.02 else 0.03);
          bump = (if uBump dr < bumpChance then rand 0.3 0.9 (uBumpSize dr) else 0);
          decay = 0.85
      in st\<lparr> vibration := clamp (vibration st * decay + bump + nVibration dr * 0.01) 0 1 \<rparr>)"

text \<open>
  \<open>tick\<close> returns the reading (or the error raised) and the simulator as the call leaves
  it. With \<open>std\<close> not a standards entry, reading \<open>std.humidityPct.safe\<close> raises after
  temperature and humidity have been advanced.
\<close>

definition tick :: "tick_draws \<Rightarrow> int \<Rightarrow> simulator \<Rightarrow> (error + reading) \<times> simulator" where
  "tick dr nowMs sim =
     (let c = controls sim;
          st0 = state sim;
          (driftT, driftH) =
            (if demoMode sim = ''atRisk'' then (0.004, 0.02)
             else if demoMode sim = ''remediation'' then (- 0.002, - 0.01)
             else (0, 0));
          st1 = st0\<lparr> temperatureC := temperatureC st0 + (nTemp dr * 0.03 + driftT + tempBiasC c * 0.02) \<rparr>;
          airflowEffect = airflowBoost c * (- 0.03);
          st2 = st1\<lparr> humidityPct := humidityPct st1
                        + (nHumidity dr * 0.10 + driftH + humidityBiasPct c * 0.03 + airflowEffect) \<rparr>
      in case getStandards (artifactType sim) of
           Entry std \<Rightarrow>
             (let moistureTarget =
                    (humidityPct st2 - midpoint (safe (standards.humidityPct std))) * 0.04
                    + min (safeMax (standards.moisturePct std) - 0.8) (safeMax (standards.moisturePct std));
                  st3 = st2\<lparr> moisturePct := moisturePct st2
                                + ((moistureTarget - moisturePct st2) * 0.02 + nMoisture dr * 0.02) \<rparr>;
                  st4 = st3\<lparr> temperatureC := clamp (temperatureC st3) 5 35,
                              humidityPct := clamp (humidityPct st3) 5 95,
                              moisturePct := clamp (moisturePct st3) 0 20 \<rparr>;
                  locked = nowMs < accessLockedUntilMs c;
                  st5 = doorLogic dr nowMs (demoMode sim) locked st4;
                  oneHourAgo = nowMs - 60 * 60000;
                  st6 = st5\<lparr> opensInLastHour := filter (\<lambda>t. t \<ge> oneHourAgo) (opensInLastHour st5) \<rparr>;
                  st7 = vibrationStep dr (demoMode sim) st6
              in (Inr \<lparr> timestamp = nowMs,
                        reading.temperatureC = toFixed 2 (temperatureC st7),
                        reading.humidityPct = toFixed 1 (humidityPct st7),
                        reading.moisturePct = toFixed 2 (moisturePct st7),
                        reading.doorState = doorState st7,
                        opensPerHour = length (opensInLastHour st7),
                        reading.vibration = toFixed 2 (vibration st7),
                        accessLocked = locked \<rparr>,
                  sim\<lparr> state := st7 \<rparr>))
         | _ \<Rightarrow> (Inl TypeError, sim\<lparr> state := st2 \<rparr>))"

text \<open>
  The two loops of \<open>generateHistory\<close>: \<open>for (let i = n; i >= 0; i--)\<close> pushing
  \<open>this.tick(now - i * step)\<close>. \<open>draws i\<close> are the values drawn by the tick of index
  \<open>i\<close>. An error raised by a tick ends the loop.
\<close>

fun historyLoop ::
  "(nat \<Rightarrow> tick_draws) \<Rightarrow> int \<Rightarrow> int \<Rightarrow> nat \<Rightarrow> reading list \<Rightarrow> simulator
     \<Rightarrow> (error + reading list) \<times> simulator" where
  "historyLoop draws now step 0 acc sim =
     (case tick (draws 0) (now - int 0 * step) sim of
        (Inl err, sim') \<Rightarrow> (Inl err, sim')
      | (Inr r, sim') \<Rightarrow> (Inr (acc @ [r]), sim'))"
| "historyLoop draws now step (Suc i) acc sim =
     (case tick (draws (Suc i)) (now - int (Suc i) * step) sim of
        (Inl err, sim') \<Rightarrow> (Inl err, sim')
      | (Inr r, sim') \<Rightarrow> historyLoop draws now step i (acc @ [r]) sim')"

definition generateHistory ::
  "(nat \<Rightarrow> tick_draws) \<Rightarrow> (nat \<Rightarrow> tick_draws) \<Rightarrow> int \<Rightarrow> simulator
     \<Rightarrow> (error + reading list \<times> reading list) \<times> simulator" where
  "generateHistory draws24h draws7d now sim =
     (case historyLoop draws24h now 60000 (24 * 60) [] sim of
        (Inl err, sim1) \<Rightarrow> (Inl err, sim1)
      | (Inr history24h, sim1) \<Rightarrow>
          (case historyLoop draws7d now (30 * 60000) (7 * 48) [] sim1 of
             (Inl err, sim2) \<Rightarrow> (Inl err, sim2)
           | (Inr history7d, sim2) \<Rightarrow> (Inr (history24h, history7d), sim2)))"

section \<open>Reference definitions and example inputs\<close>

subsection \<open>The risk score as the specification words it\<close>










text \<open>
  Example inputs: a reading with every metric inside the FOSSILS safe ranges and one door
  opening in the last hour, and a standards entry that differs from FOSSILS only in its
  access thresholds (one opening every four hours is safe, one every two hours the warn
  limit).
\<close>

definition calm_reading :: reading where
  "calm_reading = \<lparr> timestamp = 0, reading.temperatureC = 19, reading.humidityPct = 50,
     reading.moisturePct = 4, reading.doorState = Closed, opensPerHour = 1,
     reading.vibration = 0, accessLocked = False \<rparr>"


text \<open>A reading too hot for FOSSILS and otherwise safe, and one that is also too humid.\<close>

definition hot_reading :: reading where
  "hot_reading = \<lparr> timestamp = 0, reading.temperatureC = 30, reading.humidityPct = 50,
     reading.moisturePct = 3, reading.doorState = Closed, opensPerHour = 0,
     reading.vibration = 0, accessLocked = False \<rparr>"

definition hot_humid_reading :: reading where
  "hot_humid_reading = hot_reading\<lparr> reading.humidityPct := 70 \<rparr>"

subsection \<open>Sequences of calls\<close>

text \<open>Any sequence of \<open>applyAction\<close> calls, each with its action type and its \<open>Date.now()\<close>.\<close>

definition applyAll :: "(string \<times> int) list \<Rightarrow> simulator \<Rightarrow> simulator" where
  "applyAll calls sim = foldl (\<lambda>s (a, now). applyAction a now s) sim calls"

definition fresh_sim :: simulator where
  "fresh_sim = \<lparr> artifactType = ''FOSSILS'', demoMode = ''normal'',
     controls = initial_controls,
     state = \<lparr> temperatureC = 19, humidityPct = 47.5, moisturePct = 4.5, doorState = Closed,
               lastDoorToggleMs = 0, opensInLastHour = [], vibration = 0 \<rparr> \<rparr>"

text \<open>
  An engine whose trend window holds two readings one minute apart, the humidity rising
  from 69.9 to 70.
\<close>

definition rising_engine :: engine where
  "rising_engine = ingest (hot_humid_reading\<lparr> timestamp := 60000 \<rparr>)
     (ingest (hot_humid_reading\<lparr> reading.humidityPct := 69.9 \<rparr>) DecisionEngine)"

subsection \<open>Door openings in the trailing hour\<close>



definition recordedOpens :: "simulator \<Rightarrow> int \<Rightarrow> reading \<Rightarrow> int list" where
  "recordedOpens sim nowMs r =
     opensInLastHour (state sim)
     @ (if doorState (state sim) = Closed \<and> reading.doorState r = Open then [nowMs] else [])"

subsection \<open>Example simulators and draws\<close>

text \<open>
  \<open>fresh_sim\<close> is the simulator constructed at time \<open>0\<close> for FOSSILS in mode \<open>normal\<close>
  when each \<open>Math.random()\<close> returns \<open>0.5\<close>. \<open>quiet_draws\<close> is a tick without noise,
  toggle or bump; \<open>opening_draws\<close> toggles the door; \<open>wild_draws\<close> pushes every
  quantity far out of its physical range.
\<close>

definition mid_draws :: init_draws where
  "mid_draws = \<lparr> uStartT = 0.5, uStartH = 0.5, uStartM = 0.5 \<rparr>"

definition quiet_draws :: tick_draws where
  "quiet_draws = \<lparr> nTemp = 0, nHumidity = 0, nMoisture = 0, uToggle = 0.5, uBump = 0.5,
                    uBumpSize = 0.5, nVibration = 0 \<rparr>"

definition opening_draws :: tick_draws where
  "opening_draws = quiet_draws\<lparr> uToggle := 0 \<rparr>"

definition wild_draws :: tick_draws where
  "wild_draws = \<lparr> nTemp = 1000, nHumidity = - 1000, nMoisture = 2000, uToggle = 0.5, uBump = 0,
                   uBumpSize = 1, nVibration = 50 \<rparr>"


definition dehumidified_sim :: simulator where
  "dehumidified_sim = applyAction ''DEHUMIDIFY'' 40000 fresh_sim"



subsection \<open>The sampling times of generateHistory\<close>

text \<open>\<open>n\<close> times that end at \<open>now\<close> and lie \<open>step\<close> apart, oldest first.\<close>

definition backdated :: "int \<Rightarrow> int \<Rightarrow> nat \<Rightarrow> int list" where
  "backdated now step n = map (\<lambda>k. now - int k * step) (rev [0..<n])"

subsection \<open>The risk computation with every division checked\<close>

text \<open>
  The risk computation of \<open>evaluate\<close> once more (\<open>mean\<close>, \<open>slope\<close>, \<open>riskFromRange\<close>,
  \<open>riskFromMax\<close>, the access and vibration contributions and the composite score), with
  every \<open>/\<close> of the source replaced by a division that fails on a zero divisor. Nothing
  else is changed.
\<close>

definition checked_div :: "real \<Rightarrow> real \<Rightarrow> real option" where
  "checked_div a b = (if b = 0 then None else Some (a / b))"

definition mean_checked :: "real list \<Rightarrow> real option" where
  "mean_checked nums =
     (if length nums = 0 then Some 0
      else checked_div (foldl (\<lambda>a b. a + b) 0 nums) (real (length nums)))"

definition slope_checked :: "(int \<times> real) list \<Rightarrow> real option" where
  "slope_checked points =
     (if length points < 2 then Some 0
      else
        let t0 = fst (points ! 0) in
        case those (map (\<lambda>p. checked_div (real_of_int (fst p - t0)) 1000) points) of
          None \<Rightarrow> None
        | Some ts \<Rightarrow>
            (let ys = map snd points in
             case mean_checked ts of
               None \<Rightarrow> None
             | Some tMean \<Rightarrow>
                 (case mean_checked ys of
                    None \<Rightarrow> None
                  | Some yMean \<Rightarrow>
                      (let (num, den) = slope_loop tMean yMean (zip ts ys) (0, 0)
                       in if den = 0 then Some 0 else checked_div num den))))"

definition riskFromRange_checked :: "real \<Rightarrow> band \<Rightarrow> real option" where
  "riskFromRange_checked x b =
     (if isBetweenInclusive x (safe b) then Some 0
      else if isBetweenInclusive x (warn b) then
        (let (w0, w1) = warn b;
             (s0, s1) = safe b;
             d = (if x < s0 then s0 - x else if x > s1 then x - s1 else 0);
             maxD = (if x < s0 then s0 - w0 else w1 - s1);
             t = (if maxD > 0 then map_option (\<lambda>q. clamp q 0 1) (checked_div d maxD) else Some 1)
         in map_option (\<lambda>t. 25 + 35 * t) t)
      else
        (let (w0, w1) = warn b;
             d = (if x < w0 then w0 - x else if x > w1 then x - w1 else 0);
             t = map_option (\<lambda>q. clamp q 0 1) (checked_div d 5)
         in map_option (\<lambda>t. 70 + 30 * t) t))"

definition riskFromMax_checked :: "real \<Rightarrow> maxband \<Rightarrow> real option" where
  "riskFromMax_checked x m =
     (if x \<le> safeMax m then Some 0
      else if x \<le> warnMax m then
        (let t = map_option (\<lambda>q. clamp q 0 1)
                   (checked_div (x - safeMax m) (max 0.001 (warnMax m - safeMax m)))
         in map_option (\<lambda>t. 25 + 35 * t) t)
      else
        (let t = map_option (\<lambda>q. clamp q 0 1) (checked_div (x - warnMax m) 3)
         in map_option (\<lambda>t. 70 + 30 * t) t))"

definition riskAccess_checked :: "reading \<Rightarrow> standards \<Rightarrow> real option" where
  "riskAccess_checked r std =
     map_option (\<lambda>q. clamp (q * 60) 0 100)
       (checked_div (real (opensPerHour r)) (max 1 (maxOpensPerHourWarn (access std))))"

definition riskVibration_checked :: "reading \<Rightarrow> standards \<Rightarrow> real option" where
  "riskVibration_checked r std =
     map_option (\<lambda>q. clamp (q * 60) 0 100)
       (checked_div (reading.vibration r) (max 0.01 (warnMax (standards.vibration std))))"

definition computeRiskScore_checked :: "engine \<Rightarrow> reading \<Rightarrow> standards \<Rightarrow> int option" where
  "computeRiskScore_checked e r std =
     (case slope_checked (map (\<lambda>p. (fst p, reading.humidityPct (snd p))) (recent e)) of
        None \<Rightarrow> None
      | Some humiditySlopePerSec \<Rightarrow>
     (case riskFromRange_checked (reading.temperatureC r) (standards.temperatureC std) of
        None \<Rightarrow> None
      | Some riskTemp \<Rightarrow>
     (case riskFromRange_checked (reading.humidityPct r) (standards.humidityPct std) of
        None \<Rightarrow> None
      | Some riskHumidity \<Rightarrow>
     (case riskFromMax_checked (reading.moisturePct r) (standards.moisturePct std) of
        None \<Rightarrow> None
      | Some riskMoisture \<Rightarrow>
     (case riskAccess_checked r std of
        None \<Rightarrow> None
      | Some riskAcc \<Rightarrow>
     (case riskVibration_checked r std of
        None \<Rightarrow> None
      | Some riskVib \<Rightarrow>
          (let humiditySlope = humiditySlopePerSec * 60;
               score0 = riskTemp * 0.22 + riskHumidity * 0.28 + riskMoisture * 0.22
                        + riskAcc * 0.16 + riskVib * 0.12;
               score1 = (if humiditySlope > 0.08 then score0 + 8 else score0);
               score2 = (if humiditySlope > 0.15 then score1 + 12 else score1);
               score3 = (if reading.doorState r = Open then score2 + 4 else score2);
               score4 = (if accessLocked r then score3 - 3 else score3)
           in Some (clamp (Math_round score4) 0 100))))))))"

text \<open>
  A standards entry with every warn bound on its safe bound, and zero access and vibration
  thresholds.
\<close>

definition degenerate_standards :: standards where
  "degenerate_standards = \<lparr> label = ''Degenerate'',
      temperatureC = \<lparr> safe = (20, 20), warn = (20, 20) \<rparr>,
      humidityPct = \<lparr> safe = (50, 50), warn = (50, 50) \<rparr>,
      moisturePct = \<lparr> safeMax = 5, warnMax = 5 \<rparr>,
      access = \<lparr> maxOpensPerHourSafe = 0, maxOpensPerHourWarn = 0 \<rparr>,
      vibration = \<lparr> safeMax = 0, warnMax = 0 \<rparr> \<rparr>"

section \<open>Properties\<close>

subsection \<open>Standards lookup\<close>

lemma getStandards_own_key:
  "map_of STANDARDS_BY_TYPE key = Some std \<Longrightarrow> getStandards key = Entry std"
  by (simp add: getStandards_def get_property_def)

lemma getStandards_never_undefined: "getStandards key \<noteq> Undefined"
  by (simp add: getStandards_def get_property_def STANDARDS_BY_TYPE_def
      split: option.splits js_value.splits)

lemma getStandards_fallback:
  "map_of STANDARDS_BY_TYPE key = None \<Longrightarrow> key \<notin> set Object_prototype_keys
     \<Longrightarrow> getStandards key = Entry FOSSILS"
  by (simp add: getStandards_def get_property_def STANDARDS_BY_TYPE_def)

lemma getStandards_FOSSILS: "getStandards ''FOSSILS'' = Entry FOSSILS"
  by (simp add: getStandards_def get_property_def STANDARDS_BY_TYPE_def)

text \<open>
  C9. The standards lookup never raises, and a key that is not in the standards table
  falls back to the FOSSILS entry. The lookup indeed raises nothing and never yields
  \<open>undefined\<close> (\<open>getStandards_never_undefined\<close>), and a key that is neither in the table
  nor a member of \<open>Object.prototype\<close> yields FOSSILS (\<open>getStandards_fallback\<close>). The
  fallback misses the keys inherited from \<open>Object.prototype\<close>: \<open>constructor\<close> is not in
  the table, and the lookup returns the inherited member instead of the FOSSILS entry.
\<close>

theorem getStandards_inherited_key_not_default:
  "map_of STANDARDS_BY_TYPE ''constructor'' = None
   \<and> getStandards ''constructor'' = Inherited ''constructor''
   \<and> getStandards ''constructor'' \<noteq> Entry FOSSILS"
  by (simp add: getStandards_def get_property_def STANDARDS_BY_TYPE_def Object_prototype_keys_def)

subsection \<open>The lock of applyAction\<close>

lemma applyAction_lock_mono:
  "accessLockedUntilMs (controls sim) \<le> accessLockedUntilMs (controls (applyAction a now sim))"
  by (simp add: applyAction_def Let_def)

lemma applyAll_lock_mono:
  "accessLockedUntilMs (controls sim) \<le> accessLockedUntilMs (controls (applyAll calls sim))"
proof (induction calls arbitrary: sim)
  case Nil
  then show ?case by (simp add: applyAll_def)
next
  case (Cons c calls)
  obtain a now where c: "c = (a, now)" by (cases c)
  have "accessLockedUntilMs (controls sim) \<le> accessLockedUntilMs (controls (applyAction a now sim))"
    by (rule applyAction_lock_mono)
  also have "\<dots> \<le> accessLockedUntilMs (controls (applyAll calls (applyAction a now sim)))"
    by (rule Cons.IH)
  finally show ?case by (simp add: applyAll_def c)
qed

lemma applyAction_lock_end:
  "accessLockedUntilMs (controls (applyAction ''LOCK_ACCESS_10_MIN'' now sim))
     = max (accessLockedUntilMs (controls sim)) (now + 10 * 60000)"
  by (simp add: applyAction_def Let_def)

text \<open>
  C6. \<open>applyAction(LOCK_ACCESS_10_MIN)\<close> sets the lock end to the maximum of its current
  value and \<open>now\<close> plus ten minutes; the lock end never decreases along any sequence of
  \<open>applyAction\<close> calls; and a lock request whose target is not later than the present
  lock end leaves the lock end as it is.
\<close>

theorem lock_access_never_shortens:
  "accessLockedUntilMs (controls (applyAction ''LOCK_ACCESS_10_MIN'' now sim))
     = max (accessLockedUntilMs (controls sim)) (now + 10 * 60000)
   \<and> accessLockedUntilMs (controls sim) \<le> accessLockedUntilMs (controls (applyAll calls sim))
   \<and> (now + 10 * 60000 \<le> accessLockedUntilMs (controls sim)
        \<longrightarrow> accessLockedUntilMs (controls (applyAction ''LOCK_ACCESS_10_MIN'' now sim))
              = accessLockedUntilMs (controls sim))"
proof (intro conjI impI)
  show "accessLockedUntilMs (controls (applyAction ''LOCK_ACCESS_10_MIN'' now sim))
      = max (accessLockedUntilMs (controls sim)) (now + 10 * 60000)"
    by (rule applyAction_lock_end)
  show "accessLockedUntilMs (controls sim) \<le> accessLockedUntilMs (controls (applyAll calls sim))"
    by (rule applyAll_lock_mono)
  assume "now + 10 * 60000 \<le> accessLockedUntilMs (controls sim)"
  then show "accessLockedUntilMs (controls (applyAction ''LOCK_ACCESS_10_MIN'' now sim))
      = accessLockedUntilMs (controls sim)"
    by (simp add: applyAction_lock_end)
qed

text \<open>
  A lock taken at \<open>400000\<close> ends at \<open>1000000\<close>; a second request stamped \<open>120000\<close> aims at
  \<open>720000\<close> and changes nothing.
\<close>

theorem lock_access_never_shortens_witness:
  "accessLockedUntilMs (controls (applyAction ''LOCK_ACCESS_10_MIN'' 400000 fresh_sim)) = 1000000
   \<and> 120000 + 10 * 60000
       \<le> accessLockedUntilMs (controls (applyAction ''LOCK_ACCESS_10_MIN'' 400000 fresh_sim))
   \<and> accessLockedUntilMs (controls (applyAction ''LOCK_ACCESS_10_MIN'' 120000
         (applyAction ''LOCK_ACCESS_10_MIN'' 400000 fresh_sim))) = 1000000"
  using lock_access_never_shortens
    [of 120000 "applyAction ''LOCK_ACCESS_10_MIN'' 400000 fresh_sim" "[]"]
  by (simp add: applyAction_lock_end fresh_sim_def initial_controls_def)

subsection \<open>The risk score of evaluate\<close>



text \<open>
  For a safe interval \<open>s0 \<le> s1\<close> and \<open>x\<close> outside it, the distance the reference
  takes on the side of \<open>x\<close> is the distance from \<open>x\<close> to the nearest safe bound.
\<close>

lemma nearest_safe_bound:
  fixes x s0 s1 :: real
  assumes "s0 \<le> s1" and "\<not> (s0 \<le> x \<and> x \<le> s1)"
  shows "(if x < s0 then s0 - x else x - s1) = min \<bar>x - s0\<bar> \<bar>x - s1\<bar>"
  using assms by (auto simp add: min_def abs_if)











text \<open>The four entries of the table meet the three bounds.\<close>

lemma table_entries_meet_bounds:
  "list_all (\<lambda>std. warnMax (standards.moisturePct std) - safeMax (standards.moisturePct std) \<ge> 1 / 1000
               \<and> maxOpensPerHourWarn (access std) \<ge> 1
               \<and> warnMax (standards.vibration std) \<ge> 1 / 100)
     (map snd STANDARDS_BY_TYPE)"
  by (simp add: STANDARDS_BY_TYPE_def FOSSILS_def ORGANIC_def METALLIC_def STONE_def)

lemma evaluate_riskScore: "riskScore (fst (evaluate r std e)) = computeRiskScore e r std"
  by (simp add: evaluate_def Let_def)

lemma evaluate_actions:
  "actions (fst (evaluate r std e))
     = (if computeRiskScore e r std \<ge> 45 then selectActions r std else [])"
  by (simp add: evaluate_def Let_def)

lemma evaluate_engine: "snd (evaluate r std e) = e"
  by (simp add: evaluate_def Let_def)

lemma slope_empty: "humiditySlopePerMin DecisionEngine = 0"
  by (simp add: humiditySlopePerMin_def DecisionEngine_def slope_def)








subsection \<open>The gate on the actions\<close>

lemma hot_score: "computeRiskScore DecisionEngine hot_reading FOSSILS = 22"
  by (simp add: computeRiskScore_def Let_def slope_empty hot_reading_def
      FOSSILS_def riskFromRange_def riskFromMax_def riskAccess_def riskVibration_def
      isBetweenInclusive_def clamp_def Math_round_def)

lemma hot_humid_score: "computeRiskScore DecisionEngine hot_humid_reading FOSSILS = 50"
  by (simp add: computeRiskScore_def Let_def slope_empty hot_reading_def hot_humid_reading_def
      FOSSILS_def riskFromRange_def riskFromMax_def riskAccess_def riskVibration_def
      isBetweenInclusive_def clamp_def Math_round_def)

lemma hot_actions:
  "selectActions hot_reading FOSSILS
     = [\<lparr> actionType = ''ADJUST_TEMP_DOWN'', actionLabel = ''Cool internal temperature'',
          actionReason = TemperatureOutsideIdeal 30 \<rparr>]"
  by (simp add: selectActions_def Let_def hot_reading_def FOSSILS_def rangeStatus_def
      accessStatus_def isBetweenInclusive_def)

lemma hot_humid_actions:
  "map actionType (selectActions hot_humid_reading FOSSILS)
     = [''DEHUMIDIFY'', ''TRIGGER_AIRFLOW'', ''ADJUST_TEMP_DOWN'']"
  by (simp add: selectActions_def Let_def hot_reading_def hot_humid_reading_def FOSSILS_def
      rangeStatus_def accessStatus_def isBetweenInclusive_def)

lemma hot_status:
  "rangeStatus (reading.temperatureC hot_reading) (standards.temperatureC FOSSILS) = Danger"
  by (simp add: hot_reading_def FOSSILS_def rangeStatus_def isBetweenInclusive_def)

text \<open>
  C2. When the composite \<open>riskScore\<close> of an assessment is below \<open>45\<close> its list of
  actions is empty, whatever the statuses of the metrics; when it is at least \<open>45\<close> the
  list is the selected one, unchanged.
\<close>

theorem action_gate:
  "(riskScore (fst (evaluate r std e)) < 45 \<longrightarrow> actions (fst (evaluate r std e)) = [])
   \<and> (riskScore (fst (evaluate r std e)) \<ge> 45
        \<longrightarrow> actions (fst (evaluate r std e)) = selectActions r std)"
  by (simp add: evaluate_riskScore evaluate_actions)

text \<open>
  A temperature of 30 is in danger for FOSSILS and selects a cooling action, but the score
  is \<open>22\<close> and the assessment carries no action. With the humidity at 70 as well the
  score is \<open>50\<close> and the three selected actions are returned.
\<close>

theorem action_gate_witness:
  "rangeStatus (reading.temperatureC hot_reading) (standards.temperatureC FOSSILS) = Danger
   \<and> riskScore (fst (evaluate hot_reading FOSSILS DecisionEngine)) = 22
   \<and> selectActions hot_reading FOSSILS \<noteq> []
   \<and> actions (fst (evaluate hot_reading FOSSILS DecisionEngine)) = []
   \<and> riskScore (fst (evaluate hot_humid_reading FOSSILS DecisionEngine)) = 50
   \<and> map actionType (actions (fst (evaluate hot_humid_reading FOSSILS DecisionEngine)))
       = [''DEHUMIDIFY'', ''TRIGGER_AIRFLOW'', ''ADJUST_TEMP_DOWN'']"
  using action_gate [of hot_reading FOSSILS DecisionEngine]
    action_gate [of hot_humid_reading FOSSILS DecisionEngine]
  by (simp add: evaluate_riskScore hot_score hot_humid_score hot_actions hot_status
      hot_humid_actions)

subsection \<open>evaluate and the engine state\<close>

text \<open>
  C8. \<open>evaluate\<close> leaves the engine (the trend window, its only field) as it found it,
  and a second call with the same reading and standards returns the same assessment.
\<close>

theorem evaluate_idempotent:
  "snd (evaluate r std e) = e
   \<and> evaluate r std (snd (evaluate r std e)) = evaluate r std e"
  by (simp add: evaluate_engine)

subsection \<open>The simulator: frame and ranges\<close>


text \<open>
  A constructed simulator resolves its artifact type to a standards entry and starts with
  zero control biases; with an artifact type that names a member of \<open>Object.prototype\<close>
  the constructor raises.
\<close>

lemma constructed_resolves:
  assumes "Simulator aType dMode d now = Inr sim"
  shows "\<exists>std. getStandards (artifactType sim) = Entry std"
  using assms
  by (auto simp add: Simulator_def initState_def Let_def split: js_value.splits prod.splits)

lemma constructed_controls:
  assumes "Simulator aType dMode d now = Inr sim"
  shows "controls sim = initial_controls"
  using assms
  by (auto simp add: Simulator_def initState_def Let_def split: js_value.splits prod.splits)

lemma Simulator_inherited_key: "Simulator ''toString'' ''normal'' mid_draws 0 = Inl TypeError"
  by code_simp

lemma toFixed_bounds:
  assumes "0 \<le> a" and "real_of_int a \<le> x" and "x \<le> real_of_int b"
  shows "real_of_int a \<le> toFixed f x \<and> toFixed f x \<le> real_of_int b"
proof -
  have x0: "\<not> x < 0" using assms by linarith
  have p: "(0::real) < 10 ^ f" by simp
  have "real_of_int (a * 10 ^ f) \<le> x * 10 ^ f + 1 / 2"
    using assms(2) p by (simp add: mult_right_mono add_increasing2)
  then have lo: "a * 10 ^ f \<le> \<lfloor>x * 10 ^ f + 1 / 2\<rfloor>"
    by (simp add: le_floor_iff)
  have "x * 10 ^ f \<le> real_of_int b * 10 ^ f"
    using assms(3) p by (simp add: mult_right_mono)
  then have "x * 10 ^ f + 1 / 2 < real_of_int b * 10 ^ f + 1"
    by linarith
  then have "x * 10 ^ f + 1 / 2 < real_of_int (b * 10 ^ f + 1)"
    by simp
  then have "\<lfloor>x * 10 ^ f + 1 / 2\<rfloor> < b * 10 ^ f + 1"
    by (simp only: floor_less_iff)
  then have hi: "\<lfloor>x * 10 ^ f + 1 / 2\<rfloor> \<le> b * 10 ^ f"
    by simp
  have "real_of_int (a * 10 ^ f) \<le> real_of_int \<lfloor>x * 10 ^ f + 1 / 2\<rfloor>"
    using lo by (simp only: of_int_le_iff)
  moreover have "real_of_int \<lfloor>x * 10 ^ f + 1 / 2\<rfloor> \<le> real_of_int (b * 10 ^ f)"
    using hi by (simp only: of_int_le_iff)
  ultimately show ?thesis
    using x0 p by (simp add: toFixed_def pos_le_divide_eq pos_divide_le_eq)
qed

lemma clamp_bounds: "mn \<le> mx \<Longrightarrow> mn \<le> clamp n mn mx \<and> clamp n mn mx \<le> mx"
  by (simp add: clamp_def)

lemma doorLogic_frame:
  "temperatureC (doorLogic dr now m l st) = temperatureC st
   \<and> humidityPct (doorLogic dr now m l st) = humidityPct st
   \<and> moisturePct (doorLogic dr now m l st) = moisturePct st
   \<and> vibration (doorLogic dr now m l st) = vibration st"
  by (simp add: doorLogic_def Let_def)

lemma vibrationStep_frame:
  "temperatureC (vibrationStep dr m st) = temperatureC st
   \<and> humidityPct (vibrationStep dr m st) = humidityPct st
   \<and> moisturePct (vibrationStep dr m st) = moisturePct st
   \<and> doorState (vibrationStep dr m st) = doorState st
   \<and> lastDoorToggleMs (vibrationStep dr m st) = lastDoorToggleMs st
   \<and> opensInLastHour (vibrationStep dr m st) = opensInLastHour st"
  by (simp add: vibrationStep_def Let_def)

lemma vibrationStep_range:
  "0 \<le> vibration (vibrationStep dr m st) \<and> vibration (vibrationStep dr m st) \<le> 1"
  by (simp add: vibrationStep_def Let_def clamp_def)

lemma tick_frame:
  "artifactType (snd (tick dr now sim)) = artifactType sim
   \<and> demoMode (snd (tick dr now sim)) = demoMode sim
   \<and> controls (snd (tick dr now sim)) = controls sim"
  by (simp add: tick_def Let_def split: js_value.splits prod.splits)

lemma tick_returns:
  assumes "getStandards (artifactType sim) = Entry std"
  shows "\<exists>r. fst (tick dr now sim) = Inr r"
  using assms by (simp add: tick_def Let_def split: prod.splits)

lemma tick_raises:
  assumes "getStandards (artifactType sim) = Inherited k"
  shows "fst (tick dr now sim) = Inl TypeError"
  using assms by (simp add: tick_def Let_def split: prod.splits)

lemma tick_state_range:
  assumes "tick dr now sim = (Inr r, sim')"
  shows "5 \<le> temperatureC (state sim') \<and> temperatureC (state sim') \<le> 35
    \<and> 5 \<le> humidityPct (state sim') \<and> humidityPct (state sim') \<le> 95
    \<and> 0 \<le> moisturePct (state sim') \<and> moisturePct (state sim') \<le> 20
    \<and> 0 \<le> vibration (state sim') \<and> vibration (state sim') \<le> 1"
  using assms
  by (auto simp add: tick_def Let_def doorLogic_frame vibrationStep_frame vibrationStep_range clamp_bounds
      split: js_value.splits prod.splits)

lemma tick_reading:
  assumes "tick dr now sim = (Inr r, sim')"
  shows "timestamp r = now
    \<and> reading.temperatureC r = toFixed 2 (temperatureC (state sim'))
    \<and> reading.humidityPct r = toFixed 1 (humidityPct (state sim'))
    \<and> reading.moisturePct r = toFixed 2 (moisturePct (state sim'))
    \<and> reading.vibration r = toFixed 2 (vibration (state sim'))
    \<and> reading.doorState r = doorState (state sim')
    \<and> opensPerHour r = length (opensInLastHour (state sim'))
    \<and> accessLocked r = (now < accessLockedUntilMs (controls sim))"
  using assms
  by (auto simp add: tick_def Let_def split: js_value.splits prod.splits)

lemma tick_wild:
  "tick wild_draws 1000 fresh_sim
     = (Inr \<lparr> timestamp = 1000, reading.temperatureC = 35, reading.humidityPct = 5,
              reading.moisturePct = 20, reading.doorState = Closed, opensPerHour = 0,
              reading.vibration = 1, accessLocked = False \<rparr>,
        fresh_sim\<lparr> state := (state fresh_sim)\<lparr> temperatureC := 35, humidityPct := 5,
                                                   moisturePct := 20, vibration := 1 \<rparr> \<rparr>)"
  by code_simp

text \<open>
  C3. Every reading emitted by \<open>tick\<close> has its temperature in \<open>[5, 35]\<close>, its humidity
  in \<open>[5, 95]\<close>, its moisture in \<open>[0, 20]\<close> and its vibration in \<open>[0, 1]\<close>, for every
  simulator (whatever its demo mode, its state after earlier ticks and its control biases
  after any \<open>applyAction\<close> calls), every time and all draws. The state is clamped before
  the reading is taken, and rounding to one or two decimals cannot leave an interval with
  integer bounds.
\<close>

theorem tick_reading_in_range:
  assumes "tick dr nowMs sim = (Inr r, sim')"
  shows "5 \<le> reading.temperatureC r \<and> reading.temperatureC r \<le> 35
    \<and> 5 \<le> reading.humidityPct r \<and> reading.humidityPct r \<le> 95
    \<and> 0 \<le> reading.moisturePct r \<and> reading.moisturePct r \<le> 20
    \<and> 0 \<le> reading.vibration r \<and> reading.vibration r \<le> 1"
proof -
  note st = tick_state_range [OF assms] and rd = tick_reading [OF assms]
  have t: "real_of_int 5 \<le> toFixed 2 (temperatureC (state sim')) \<and> toFixed 2 (temperatureC (state sim')) \<le> real_of_int 35"
    using st by (intro toFixed_bounds) simp_all
  have h: "real_of_int 5 \<le> toFixed 1 (humidityPct (state sim')) \<and> toFixed 1 (humidityPct (state sim')) \<le> real_of_int 95"
    using st by (intro toFixed_bounds) simp_all
  have m: "real_of_int 0 \<le> toFixed 2 (moisturePct (state sim')) \<and> toFixed 2 (moisturePct (state sim')) \<le> real_of_int 20"
    using st by (intro toFixed_bounds) simp_all
  have v: "real_of_int 0 \<le> toFixed 2 (vibration (state sim')) \<and> toFixed 2 (vibration (state sim')) \<le> real_of_int 1"
    using st by (intro toFixed_bounds) simp_all
  show ?thesis using t h m v rd by simp
qed

text \<open>
  With noise far out of range the emitted reading sits on the bounds: 35, 5, 20 and 1.
\<close>

theorem tick_reading_in_range_witness:
  "tick wild_draws 1000 fresh_sim
     = (Inr \<lparr> timestamp = 1000, reading.temperatureC = 35, reading.humidityPct = 5,
              reading.moisturePct = 20, reading.doorState = Closed, opensPerHour = 0,
              reading.vibration = 1, accessLocked = False \<rparr>,
        fresh_sim\<lparr> state := (state fresh_sim)\<lparr> temperatureC := 35, humidityPct := 5,
                                                   moisturePct := 20, vibration := 1 \<rparr> \<rparr>)
   \<and> (5::real) \<le> 35 \<and> (35::real) \<le> 35 \<and> (5::real) \<le> 5 \<and> (5::real) \<le> 95
   \<and> (0::real) \<le> 20 \<and> (20::real) \<le> 20 \<and> (0::real) \<le> 1 \<and> (1::real) \<le> 1"
  using tick_reading_in_range [OF tick_wild] tick_wild by simp

subsection \<open>The control biases\<close>

lemma initState_frame:
  "artifactType (snd (initState d now sim)) = artifactType sim
   \<and> demoMode (snd (initState d now sim)) = demoMode sim
   \<and> controls (snd (initState d now sim)) = controls sim"
  by (simp add: initState_def Let_def split: js_value.splits prod.splits)

lemma initState_ignores_state:
  "fst (initState d now (sim\<lparr> state := st \<rparr>)) = fst (initState d now sim)
   \<and> state (snd (initState d now (sim\<lparr> state := st \<rparr>)))
       = (case fst (initState d now sim) of Inl _ \<Rightarrow> st | Inr _ \<Rightarrow> state (snd (initState d now sim)))"
  by (simp add: initState_def Let_def split: js_value.splits prod.splits)

lemma initState_reconstruct:
  assumes "initState d now sim = (Inr (), sim')"
  shows "Simulator (artifactType sim) (demoMode sim) d now = Inr (sim'\<lparr> controls := initial_controls \<rparr>)"
  using assms
  by (auto simp add: Simulator_def initState_def Let_def split: js_value.splits prod.splits)

lemma historyLoop_frame:
  "artifactType (snd (historyLoop ds now step i acc sim)) = artifactType sim
   \<and> demoMode (snd (historyLoop ds now step i acc sim)) = demoMode sim
   \<and> controls (snd (historyLoop ds now step i acc sim)) = controls sim"
proof (induction i arbitrary: acc sim)
  case 0
  obtain res s1 where t: "tick (ds 0) (now - int 0 * step) sim = (res, s1)" by (metis surj_pair)
  have "artifactType s1 = artifactType sim \<and> demoMode s1 = demoMode sim \<and> controls s1 = controls sim"
    using tick_frame [of "ds 0" "now - int 0 * step" sim] by (simp only: t snd_conv)
  then show ?case
    by (cases res) (simp_all only: historyLoop.simps t prod.case sum.case snd_conv simp_thms)
next
  case (Suc i)
  obtain res s1 where t: "tick (ds (Suc i)) (now - int (Suc i) * step) sim = (res, s1)"
    by (metis surj_pair)
  have f: "artifactType s1 = artifactType sim \<and> demoMode s1 = demoMode sim \<and> controls s1 = controls sim"
    using tick_frame [of "ds (Suc i)" "now - int (Suc i) * step" sim] by (simp only: t snd_conv)
  show ?case
  proof (cases res)
    case (Inl err)
    then show ?thesis using f
      by (simp only: historyLoop.simps t prod.case sum.case snd_conv simp_thms)
  next
    case (Inr r)
    then show ?thesis using f Suc.IH [of "acc @ [r]" s1]
      by (simp only: historyLoop.simps t prod.case sum.case simp_thms)
  qed
qed

lemma generateHistory_frame:
  "artifactType (snd (generateHistory d24 d7 now sim)) = artifactType sim
   \<and> demoMode (snd (generateHistory d24 d7 now sim)) = demoMode sim
   \<and> controls (snd (generateHistory d24 d7 now sim)) = controls sim"
proof -
  obtain r1 s1 where h1: "historyLoop d24 now 60000 (24 * 60) [] sim = (r1, s1)" by (metis surj_pair)
  obtain r2 s2 where h2: "historyLoop d7 now (30 * 60000) (7 * 48) [] s1 = (r2, s2)" by (metis surj_pair)
  have f1: "artifactType s1 = artifactType sim \<and> demoMode s1 = demoMode sim \<and> controls s1 = controls sim"
    using historyLoop_frame [of d24 now 60000 "24 * 60" "[]" sim] by (simp only: h1 snd_conv)
  have f2: "artifactType s2 = artifactType s1 \<and> demoMode s2 = demoMode s1 \<and> controls s2 = controls s1"
    using historyLoop_frame [of d7 now "30 * 60000" "7 * 48" "[]" s1] by (simp only: h2 snd_conv)
  show ?thesis
  proof (cases r1)
    case (Inl err)
    then show ?thesis using f1
      by (simp only: generateHistory_def h1 prod.case sum.case snd_conv simp_thms)
  next
    case r1: (Inr history24h)
    show ?thesis
    proof (cases r2)
      case (Inl err)
      then show ?thesis using f1 f2 r1
        by (simp only: generateHistory_def h1 h2 prod.case sum.case snd_conv simp_thms)
    next
      case (Inr history7d)
      then show ?thesis using f1 f2 r1
        by (simp only: generateHistory_def h1 h2 prod.case sum.case snd_conv simp_thms)
    qed
  qed
qed

lemma set_stone:
  "setArtifactType ''STONE'' mid_draws 50000 dehumidified_sim
     = (Inr (),
        \<lparr> artifactType = ''STONE'', demoMode = ''normal'',
          controls = \<lparr> tempBiasC = 0, humidityBiasPct = - 0.4, airflowBoost = 0.2,
                       accessLockedUntilMs = 0 \<rparr>,
          state = \<lparr> temperatureC = 20, humidityPct = 50, moisturePct = 5.5, doorState = Closed,
                    lastDoorToggleMs = 50000, opensInLastHour = [], vibration = 0 \<rparr> \<rparr>)"
  by code_simp

lemma new_stone:
  "Simulator ''STONE'' ''normal'' mid_draws 50000
     = Inr \<lparr> artifactType = ''STONE'', demoMode = ''normal'', controls = initial_controls,
             state = \<lparr> temperatureC = 20, humidityPct = 50, moisturePct = 5.5,
                       doorState = Closed, lastDoorToggleMs = 50000, opensInLastHour = [],
                       vibration = 0 \<rparr> \<rparr>"
  by code_simp

text \<open>
  C4, as amended. The control biases are changed neither by \<open>tick\<close> nor by
  \<open>generateHistory\<close>, and \<open>setArtifactType\<close> and \<open>setDemoMode\<close> leave them as they are
  too: each of the two re-initialises the physical state only, so that its result, when
  it returns, is the simulator a reconstruction with the new parameter would give except
  for the control biases, which it keeps. Only \<open>applyAction\<close> and the constructor assign
  them.
\<close>

theorem controls_frame:
  "controls (snd (tick dr now sim)) = controls sim
   \<and> controls (snd (generateHistory d24 d7 now sim)) = controls sim
   \<and> controls (snd (setArtifactType a d now sim)) = controls sim
   \<and> controls (snd (setDemoMode m d now sim)) = controls sim
   \<and> (setArtifactType a d now sim = (Inr (), sim')
        \<longrightarrow> Simulator a (demoMode sim) d now = Inr (sim'\<lparr> controls := initial_controls \<rparr>))
   \<and> (setDemoMode m d now sim = (Inr (), sim')
        \<longrightarrow> Simulator (artifactType sim) m d now = Inr (sim'\<lparr> controls := initial_controls \<rparr>))"
proof -
  have a: "setArtifactType a d now sim = (Inr (), sim')
        \<longrightarrow> Simulator a (demoMode sim) d now = Inr (sim'\<lparr> controls := initial_controls \<rparr>)"
    using initState_reconstruct [of d now "sim\<lparr> artifactType := a \<rparr>" sim']
    by (simp add: setArtifactType_def)
  have m: "setDemoMode m d now sim = (Inr (), sim')
        \<longrightarrow> Simulator (artifactType sim) m d now = Inr (sim'\<lparr> controls := initial_controls \<rparr>)"
    using initState_reconstruct [of d now "sim\<lparr> demoMode := m \<rparr>" sim']
    by (simp add: setDemoMode_def)
  show ?thesis
    using a m by (simp add: tick_frame generateHistory_frame setArtifactType_def setDemoMode_def initState_frame)
qed

text \<open>
  After \<open>DEHUMIDIFY\<close> the biases are \<open>-0.4\<close> and \<open>0.2\<close>; changing the artifact type or
  the demo mode returns, keeps them, and agrees with a reconstruction on everything else.
\<close>

theorem controls_frame_witness:
  "setArtifactType ''STONE'' mid_draws 50000 dehumidified_sim
     = (Inr (), snd (setArtifactType ''STONE'' mid_draws 50000 dehumidified_sim))
   \<and> Simulator ''STONE'' (demoMode dehumidified_sim) mid_draws 50000
       = Inr ((snd (setArtifactType ''STONE'' mid_draws 50000 dehumidified_sim))
               \<lparr> controls := initial_controls \<rparr>)
   \<and> setDemoMode ''atRisk'' mid_draws 50000 dehumidified_sim
     = (Inr (), snd (setDemoMode ''atRisk'' mid_draws 50000 dehumidified_sim))
   \<and> Simulator (artifactType dehumidified_sim) ''atRisk'' mid_draws 50000
       = Inr ((snd (setDemoMode ''atRisk'' mid_draws 50000 dehumidified_sim))
               \<lparr> controls := initial_controls \<rparr>)
   \<and> controls (snd (setArtifactType ''STONE'' mid_draws 50000 dehumidified_sim))
       = \<lparr> tempBiasC = 0, humidityBiasPct = - 0.4, airflowBoost = 0.2, accessLockedUntilMs = 0 \<rparr>"
proof -
  have s: "setArtifactType ''STONE'' mid_draws 50000 dehumidified_sim
     = (Inr (), snd (setArtifactType ''STONE'' mid_draws 50000 dehumidified_sim))"
    by (simp add: set_stone)
  have "fst (setDemoMode ''atRisk'' mid_draws 50000 dehumidified_sim) = Inr ()"
    by code_simp
  then have m: "setDemoMode ''atRisk'' mid_draws 50000 dehumidified_sim
     = (Inr (), snd (setDemoMode ''atRisk'' mid_draws 50000 dehumidified_sim))"
    by (simp add: prod_eq_iff)
  show ?thesis
    using controls_frame [of _ _ dehumidified_sim _ _ "''STONE''" mid_draws "''atRisk''"
        "snd (setArtifactType ''STONE'' mid_draws 50000 dehumidified_sim)", of _ 50000]
      controls_frame [of _ _ dehumidified_sim _ _ "''STONE''" mid_draws "''atRisk''"
        "snd (setDemoMode ''atRisk'' mid_draws 50000 dehumidified_sim)", of _ 50000]
      s m
    by (simp add: set_stone)
qed

text \<open>
  C4 as stated fails: after \<open>DEHUMIDIFY\<close>, \<open>setArtifactType\<close> returns a simulator whose
  control biases are not the initial ones, and which is not the simulator a
  reconstruction gives.
\<close>

theorem controls_reset_counterexample:
  "fst (setArtifactType ''STONE'' mid_draws 50000 dehumidified_sim) = Inr ()
   \<and> controls (snd (setArtifactType ''STONE'' mid_draws 50000 dehumidified_sim)) \<noteq> initial_controls
   \<and> Simulator ''STONE'' ''normal'' mid_draws 50000
       \<noteq> Inr (snd (setArtifactType ''STONE'' mid_draws 50000 dehumidified_sim))"
  by (simp add: set_stone new_stone initial_controls_def)

subsection \<open>Door openings per hour\<close>

lemma doorLogic_opens:
  "opensInLastHour (doorLogic dr now m l st)
     = opensInLastHour st
       @ (if doorState st = Closed \<and> doorState (doorLogic dr now m l st) = Open then [now] else [])"
  by (simp add: doorLogic_def Let_def)

lemma doorLogic_climate:
  "doorState (doorLogic dr now m l (st\<lparr> temperatureC := a, humidityPct := b, moisturePct := c \<rparr>))
     = doorState (doorLogic dr now m l st)
   \<and> opensInLastHour (doorLogic dr now m l (st\<lparr> temperatureC := a, humidityPct := b, moisturePct := c \<rparr>))
     = opensInLastHour (doorLogic dr now m l st)
   \<and> lastDoorToggleMs (doorLogic dr now m l (st\<lparr> temperatureC := a, humidityPct := b, moisturePct := c \<rparr>))
     = lastDoorToggleMs (doorLogic dr now m l st)"
  by (simp add: doorLogic_def Let_def)

lemma tick_door:
  assumes "tick dr now sim = (Inr r, sim')"
  shows "doorState (state sim')
      = doorState (doorLogic dr now (demoMode sim) (now < accessLockedUntilMs (controls sim)) (state sim))
    \<and> opensInLastHour (state sim')
      = filter (\<lambda>t. t \<ge> now - 60 * 60000)
          (opensInLastHour (doorLogic dr now (demoMode sim) (now < accessLockedUntilMs (controls sim)) (state sim)))
    \<and> lastDoorToggleMs (state sim')
      = lastDoorToggleMs (doorLogic dr now (demoMode sim) (now < accessLockedUntilMs (controls sim)) (state sim))"
  using assms
  by (auto simp add: tick_def Let_def vibrationStep_frame doorLogic_climate
      split: js_value.splits prod.splits)

lemma tick_opens:
  assumes "tick dr now sim = (Inr r, sim')"
  shows "opensInLastHour (state sim') = filter (\<lambda>t. now - 3600000 \<le> t) (recordedOpens sim now r)"
proof -
  note d = tick_door [OF assms] and rd = tick_reading [OF assms]
  have "reading.doorState r
      = doorState (doorLogic dr now (demoMode sim) (now < accessLockedUntilMs (controls sim)) (state sim))"
    using d rd by simp
  then have "recordedOpens sim now r
      = opensInLastHour (doorLogic dr now (demoMode sim) (now < accessLockedUntilMs (controls sim)) (state sim))"
    unfolding recordedOpens_def by (subst doorLogic_opens) simp
  then show ?thesis using d by simp
qed


lemma recordedOpens_le:
  assumes "\<forall>t \<in> set (opensInLastHour (state sim)). t \<le> now"
  shows "\<forall>t \<in> set (recordedOpens sim now r). t \<le> now"
  using assms by (auto simp add: recordedOpens_def)

lemma tick_opens_le:
  assumes "tick dr now sim = (Inr r, sim')"
    and "\<forall>t \<in> set (opensInLastHour (state sim)). t \<le> now"
    and "now \<le> later"
  shows "\<forall>t \<in> set (opensInLastHour (state sim')). t \<le> later"
  using recordedOpens_le [OF assms(2), of r] assms(3)
  by (simp add: tick_opens [OF assms(1)]) force




lemma opened_reading:
  "fst (tick opening_draws 20000 fresh_sim)
     = Inr \<lparr> timestamp = 20000, reading.temperatureC = 19, reading.humidityPct = 47.5,
             reading.moisturePct = 4.49, reading.doorState = Open, opensPerHour = 1,
             reading.vibration = 0, accessLocked = False \<rparr>"
  by code_simp




subsection \<open>generateHistory\<close>

lemma backdated_Suc: "backdated now step (Suc n) = (now - int n * step) # backdated now step n"
  by (simp add: backdated_def)

lemma backdated_sorted:
  assumes "0 \<le> step"
  shows "sorted (backdated now step n)"
proof (induction n)
  case 0
  show ?case by (simp add: backdated_def)
next
  case (Suc n)
  have "now - int n * step \<le> now - int k * step" if "k < n" for k
    using that assms by (simp add: mult_right_mono)
  then have "\<forall>y \<in> set (backdated now step n). now - int n * step \<le> y"
    by (auto simp add: backdated_def)
  then show ?case using Suc.IH by (simp add: backdated_Suc)
qed

lemma tick_total:
  assumes "getStandards (artifactType sim) = Entry std"
  shows "\<exists>r sim'. tick dr now sim = (Inr r, sim') \<and> timestamp r = now
           \<and> artifactType sim' = artifactType sim"
proof -
  obtain r where r: "fst (tick dr now sim) = Inr r"
    using tick_returns [OF assms] by blast
  then have t: "tick dr now sim = (Inr r, snd (tick dr now sim))"
    by (simp add: prod_eq_iff)
  show ?thesis
    using t tick_reading [OF t] tick_frame [of dr now sim] by blast
qed

lemma historyLoop_returns:
  "getStandards (artifactType sim) = Entry std \<Longrightarrow>
   \<exists>rs sim'. historyLoop ds now step i acc sim = (Inr (acc @ rs), sim')
      \<and> map timestamp rs = backdated now step (Suc i)
      \<and> artifactType sim' = artifactType sim"
proof (induction i arbitrary: acc sim)
  case 0
  obtain r s1 where t: "tick (ds 0) (now - int 0 * step) sim = (Inr r, s1)"
      and ts: "timestamp r = now - int 0 * step" and a: "artifactType s1 = artifactType sim"
    using tick_total [OF "0.prems"] by blast
  have "historyLoop ds now step 0 acc sim = (Inr (acc @ [r]), s1)"
    by (simp only: historyLoop.simps t prod.case sum.case)
  moreover have "map timestamp [r] = backdated now step (Suc 0)"
    using ts by (simp add: backdated_def)
  ultimately show ?case using a by blast
next
  case (Suc i)
  obtain r s1 where t: "tick (ds (Suc i)) (now - int (Suc i) * step) sim = (Inr r, s1)"
      and ts: "timestamp r = now - int (Suc i) * step" and a: "artifactType s1 = artifactType sim"
    using tick_total [OF Suc.prems] by blast
  have "getStandards (artifactType s1) = Entry std"
    using Suc.prems a by simp
  then obtain rs s2 where h: "historyLoop ds now step i (acc @ [r]) s1 = (Inr ((acc @ [r]) @ rs), s2)"
      and m: "map timestamp rs = backdated now step (Suc i)" and a2: "artifactType s2 = artifactType s1"
    using Suc.IH [of s1 "acc @ [r]"] by blast
  have "historyLoop ds now step (Suc i) acc sim = (Inr (acc @ (r # rs)), s2)"
    using h by (simp only: historyLoop.simps t prod.case sum.case) simp
  moreover have "map timestamp (r # rs) = backdated now step (Suc (Suc i))"
    using ts m by (simp add: backdated_Suc)
  ultimately show ?case using a a2 by (metis)
qed

text \<open>
  C7. For a simulator whose artifact type resolves to a standards entry,
  \<open>generateHistory\<close> returns, and returns exactly 1441 readings in the 24-hour series,
  stamped one minute apart up to \<open>now\<close>, and exactly 337 readings in the 7-day series,
  stamped thirty minutes apart up to \<open>now\<close>; each series is in non-decreasing order of
  timestamp.
\<close>

theorem generateHistory_sizes:
  assumes "getStandards (artifactType sim) = Entry std"
  shows "\<exists>history24h history7d sim'.
      generateHistory draws24h draws7d now sim = (Inr (history24h, history7d), sim')
      \<and> length history24h = 1441 \<and> length history7d = 337
      \<and> map timestamp history24h = backdated now 60000 1441
      \<and> map timestamp history7d = backdated now 1800000 337
      \<and> sorted (map timestamp history24h) \<and> sorted (map timestamp history7d)"
proof -
  obtain h24 s1 where l1: "historyLoop draws24h now 60000 (24 * 60) [] sim = (Inr ([] @ h24), s1)"
      and m1: "map timestamp h24 = backdated now 60000 (Suc (24 * 60))"
      and a1: "artifactType s1 = artifactType sim"
    using historyLoop_returns [OF assms, of draws24h now 60000 "24 * 60" "[]"] by blast
  have "getStandards (artifactType s1) = Entry std" using assms a1 by simp
  then obtain h7 s2 where l2: "historyLoop draws7d now (30 * 60000) (7 * 48) [] s1 = (Inr ([] @ h7), s2)"
      and m2: "map timestamp h7 = backdated now (30 * 60000) (Suc (7 * 48))"
    using historyLoop_returns [of s1 std draws7d now "30 * 60000" "7 * 48" "[]"] by blast
  have g: "generateHistory draws24h draws7d now sim = (Inr (h24, h7), s2)"
    by (simp only: generateHistory_def l1 l2 prod.case sum.case append_Nil)
  have n1: "map timestamp h24 = backdated now 60000 1441" using m1 by simp
  have n2: "map timestamp h7 = backdated now 1800000 337" using m2 by simp
  have len1: "length h24 = 1441"
    using arg_cong [OF n1, of length] by (simp add: backdated_def)
  have len2: "length h7 = 337"
    using arg_cong [OF n2, of length] by (simp add: backdated_def)
  have s1: "sorted (map timestamp h24)" by (simp only: n1 backdated_sorted)
  have s2: "sorted (map timestamp h7)" by (simp only: n2 backdated_sorted)
  show ?thesis using g n1 n2 len1 len2 s1 s2 by blast
qed

theorem generateHistory_sizes_witness:
  "getStandards (artifactType fresh_sim) = Entry FOSSILS
   \<and> (\<exists>history24h history7d sim'.
        generateHistory (\<lambda>i. quiet_draws) (\<lambda>i. quiet_draws) 86400000 fresh_sim
          = (Inr (history24h, history7d), sim')
        \<and> length history24h = 1441 \<and> length history7d = 337
        \<and> sorted (map timestamp history24h) \<and> sorted (map timestamp history7d))"
proof -
  have e: "getStandards (artifactType fresh_sim) = Entry FOSSILS"
    by (simp add: fresh_sim_def getStandards_FOSSILS)
  show ?thesis
    using generateHistory_sizes [OF e, of "\<lambda>i. quiet_draws" "\<lambda>i. quiet_draws" 86400000] e
    by blast
qed

subsection \<open>No division by zero in the risk computation\<close>

lemma checked_div_Some: "b \<noteq> 0 \<Longrightarrow> checked_div a b = Some (a / b)"
  by (simp add: checked_div_def)

lemma mean_checked_total: "mean_checked nums = Some (mean nums)"
  by (simp add: mean_checked_def mean_def checked_div_def)

lemma those_map_Some: "those (map (\<lambda>p. Some (f p)) ps) = Some (map f ps)"
  by (induction ps) simp_all

lemma slope_checked_total: "slope_checked points = Some (slope points)"
  by (simp add: slope_checked_def slope_def checked_div_def those_map_Some mean_checked_total
      Let_def split: prod.splits)

lemma riskFromRange_checked_total: "riskFromRange_checked x b = Some (riskFromRange x b)"
  by (simp add: riskFromRange_checked_def riskFromRange_def checked_div_def Let_def split: prod.splits)

lemma riskFromMax_checked_total: "riskFromMax_checked x m = Some (riskFromMax x m)"
proof -
  have "max 0.001 (warnMax m - safeMax m) \<noteq> 0" by (simp add: max_def)
  then show ?thesis
    by (simp add: riskFromMax_checked_def riskFromMax_def checked_div_Some Let_def)
qed

lemma riskAccess_checked_total: "riskAccess_checked r std = Some (riskAccess r std)"
proof -
  have "max 1 (maxOpensPerHourWarn (access std)) \<noteq> 0" by (simp add: max_def)
  then show ?thesis
    by (simp add: riskAccess_checked_def riskAccess_def checked_div_Some)
qed

lemma riskVibration_checked_total: "riskVibration_checked r std = Some (riskVibration r std)"
proof -
  have "max 0.01 (warnMax (standards.vibration std)) \<noteq> 0" by (simp add: max_def)
  then show ?thesis
    by (simp add: riskVibration_checked_def riskVibration_def checked_div_Some)
qed

lemma computeRiskScore_checked_total:
  "computeRiskScore_checked e r std = Some (computeRiskScore e r std)"
  by (simp only: computeRiskScore_checked_def computeRiskScore_def humiditySlopePerMin_def
      slope_checked_total riskFromRange_checked_total riskFromMax_checked_total
      riskAccess_checked_total riskVibration_checked_total option.case Let_def)

text \<open>
  Inside the warn branch of \<open>riskFromRange\<close> the buffer on the side of \<open>x\<close> has positive
  width, so in exact arithmetic the guard \<open>maxD > 0\<close> always holds there and the fallback
  \<open>t = 1\<close> is not taken: with a warn bound on its safe bound no \<open>x\<close> reaches the branch
  on that side.
\<close>

lemma warn_buffer_positive:
  assumes "\<not> isBetweenInclusive x (s0, s1)" and "isBetweenInclusive x (w0, w1)"
  shows "(if x < s0 then s0 - w0 else w1 - s1) > 0"
  using assms by (auto simp add: isBetweenInclusive_def)

lemma degenerate_scores:
  "computeRiskScore_checked DecisionEngine calm_reading degenerate_standards = Some 26
   \<and> computeRiskScore_checked rising_engine hot_humid_reading degenerate_standards = Some 58"
  by code_simp

text \<open>
  C10. Every division in the risk computation of \<open>evaluate\<close> has a non-zero divisor, for
  every reading, standards entry and trend window, degenerate entries included: the
  computation with checked divisions never fails and returns the value of the unchecked
  one, in each of its parts (the regression slope, \<open>riskFromRange\<close>, \<open>riskFromMax\<close>, the
  access and the vibration contribution) and as a whole.
\<close>

theorem risk_divisions_guarded:
  "computeRiskScore_checked e r std = Some (riskScore (fst (evaluate r std e)))
   \<and> slope_checked points = Some (slope points)
   \<and> riskFromRange_checked x b = Some (riskFromRange x b)
   \<and> riskFromMax_checked x m = Some (riskFromMax x m)
   \<and> riskAccess_checked r std = Some (riskAccess r std)
   \<and> riskVibration_checked r std = Some (riskVibration r std)"
  by (simp add: computeRiskScore_checked_total evaluate_riskScore slope_checked_total
      riskFromRange_checked_total riskFromMax_checked_total riskAccess_checked_total
      riskVibration_checked_total)

end
